theory Spec2Isabelle
  imports Complex_Main "HOL-Library.AList" "HOL-Library.Sublist" "HOL-Library.Multiset"
    "HOL-Library.Char_ord" "HOL-Library.List_Lexorder"
begin

section \<open>Feedback record store of \<^verbatim>\<open>scripts/feedback_system.py\<close>\<close>

subsection \<open>JSON values and the Python operations used on them\<close>

text \<open>
  A feedback record is a Python \<^verbatim>\<open>dict\<close> that \<^verbatim>\<open>json.dump\<close> writes and \<^verbatim>\<open>json.load\<close> reads
  back. A dict is an association list in insertion order; \<open>JNull\<close> is Python's \<^verbatim>\<open>None\<close>.
  A float is a finite number, an infinity or \<^verbatim>\<open>NaN\<close>, all of which \<^verbatim>\<open>json\<close> writes and
  reads. Writing a value and loading it again is taken to give the same value.
\<close>

datatype pyfloat = Finite real | PosInf | NegInf | NaN

datatype json =
    JNull
  | JBool bool
  | JInt int
  | JFloat pyfloat
  | JStr string
  | JList "json list"
  | JObj "(string \<times> json) list"

text \<open>The Python exceptions that can leave a method of \<^verbatim>\<open>FeedbackSystem\<close> uncaught.\<close>

datatype error = TypeError | KeyError | AttributeError | OverflowError

text \<open>Truth value of a Python object, as \<^verbatim>\<open>if x:\<close> and \<^verbatim>\<open>not x\<close> test it.\<close>

fun truthy :: "json \<Rightarrow> bool" where
  "truthy JNull = False"
| "truthy (JBool b) = b"
| "truthy (JInt i) = (i \<noteq> 0)"
| "truthy (JFloat x) = (x \<noteq> Finite 0)"
| "truthy (JStr s) = (s \<noteq> [])"
| "truthy (JList xs) = (xs \<noteq> [])"
| "truthy (JObj kvs) = (kvs \<noteq> [])"

text \<open>\<^verbatim>\<open>d.get(k, dflt)\<close> on a dict, and on any loaded value (only a dict has \<^verbatim>\<open>get\<close>).\<close>

definition dict_get :: "(string \<times> json) list \<Rightarrow> string \<Rightarrow> json \<Rightarrow> json" where
  "dict_get d k dflt = (case map_of d k of None \<Rightarrow> dflt | Some v \<Rightarrow> v)"

definition py_get :: "json \<Rightarrow> string \<Rightarrow> json \<Rightarrow> error + json" where
  "py_get j k dflt = (case j of JObj d \<Rightarrow> Inr (dict_get d k dflt) | _ \<Rightarrow> Inl AttributeError)"

text \<open>\<^verbatim>\<open>s.endswith(suf)\<close>.\<close>

definition endswith :: "string \<Rightarrow> string \<Rightarrow> bool" where
  "endswith s suf = (length suf \<le> length s \<and> drop (length s - length suf) s = suf)"

subsection \<open>The closed sets\<close>

definition FEEDBACK_TYPES :: "string list" where
  "FEEDBACK_TYPES = [''issue'', ''improvement'', ''question'', ''compliance'', ''other'']"

definition FEEDBACK_STATUSES :: "string list" where
  "FEEDBACK_STATUSES =
     [''new'', ''acknowledged'', ''in_progress'', ''resolved'', ''closed'', ''rejected'']"

definition FEEDBACK_PRIORITIES :: "string list" where
  "FEEDBACK_PRIORITIES = [''low'', ''medium'', ''high'', ''critical'']"

subsection \<open>The file system\<close>

text \<open>
  A file holds text that \<^verbatim>\<open>json.load\<close> either rejects (\<open>Malformed\<close>) or parses (\<open>Doc\<close>).
  A directory lists its regular files by name, in the order \<^verbatim>\<open>os.listdir\<close> yields them. The
  store is the file system: it maps the absolute path of a directory, given as the list of
  its components below the root, to the listing of that directory, and every other path to
  \<open>None\<close>. \<open>feedback_dir\<close> is the absolute path of \<^verbatim>\<open>self.feedback_dir\<close>.
\<close>

datatype content = Malformed | Doc json

type_synonym directory = "(string \<times> content) list"

type_synonym path = "string list"

type_synonym store = "path \<Rightarrow> directory option"

text \<open>The components of a path string: the pieces between slashes, empty pieces dropped.\<close>

fun split_acc :: "string \<Rightarrow> string \<Rightarrow> string list" where
  "split_acc acc [] = (if acc = [] then [] else [acc])"
| "split_acc acc (c # cs) =
     (if c = CHR ''/'' then (if acc = [] then split_acc [] cs else acc # split_acc [] cs)
      else split_acc (acc @ [c]) cs)"

definition split_path :: "string \<Rightarrow> string list" where
  "split_path p = split_acc [] p"

definition is_abs :: "string \<Rightarrow> bool" where
  "is_abs p = (case p of [] \<Rightarrow> False | c # cs \<Rightarrow> c = CHR ''/'')"

text \<open>
  Path resolution, from the directory \<open>cur\<close> through the components that name directories:
  \<^verbatim>\<open>.\<close> stays, \<^verbatim>\<open>..\<close> goes to the parent (the root is its own parent), a name enters the
  subdirectory of that name. Resolution fails when it comes to a directory that does not
  exist.
\<close>

fun walk :: "store \<Rightarrow> path \<Rightarrow> string list \<Rightarrow> path option" where
  "walk s cur [] = (if s cur = None then None else Some cur)"
| "walk s cur (c # cs) =
     (if s cur = None then None
      else if c = ''.'' then walk s cur cs
      else if c = ''..'' then walk s (butlast cur) cs
      else walk s (cur @ [c]) cs)"

definition json_name :: "string \<Rightarrow> string" where
  "json_name feedback_id = feedback_id @ ''.json''"

text \<open>
  \<^verbatim>\<open>os.path.join(self.feedback_dir, feedback_type, f"{feedback_id}.json")\<close>, resolved to the
  directory that holds the file and the name of the file in it. \<^verbatim>\<open>os.path.join\<close> drops what
  comes before an argument that starts with a slash; \<open>parts\<close> are the arguments that stay
  after \<^verbatim>\<open>feedback_dir\<close>. A path with a null character names nothing.
\<close>

definition locate :: "store \<Rightarrow> path \<Rightarrow> string \<Rightarrow> string \<Rightarrow> (path \<times> string) option" where
  "locate s feedback_dir feedback_type feedback_id =
     (let filename = json_name feedback_id;
          parts = (if is_abs filename then [filename] else [feedback_type, filename]);
          comps = concat (map split_path parts);
          start = (if list_ex is_abs parts then [] else feedback_dir)
      in if list_ex (\<lambda>p. CHR 0x00 \<in> set p) parts \<or> comps = [] then None
         else (case walk s start (butlast comps) of
                 None \<Rightarrow> None
               | Some d \<Rightarrow> Some (d, last comps)))"

text \<open>The file \<open>n\<close> of the directory \<open>d\<close>.\<close>

definition file_at :: "store \<Rightarrow> path \<Rightarrow> string \<Rightarrow> content option" where
  "file_at s d n = (case s d of None \<Rightarrow> None | Some files \<Rightarrow> map_of files n)"

text \<open>
  \<^verbatim>\<open>os.path.exists(feedback_path)\<close> followed by \<^verbatim>\<open>open(feedback_path, 'r')\<close> and
  \<^verbatim>\<open>json.load\<close>: \<open>None\<close> when nothing is at the path, \<open>Some Malformed\<close> when reading what is
  there raises, as it does for a directory.
\<close>

definition read_file :: "store \<Rightarrow> path \<Rightarrow> string \<Rightarrow> string \<Rightarrow> content option" where
  "read_file s feedback_dir feedback_type feedback_id =
     (case locate s feedback_dir feedback_type feedback_id of
        None \<Rightarrow> None
      | Some (d, n) \<Rightarrow>
          (case file_at s d n of
             Some c \<Rightarrow> Some c
           | None \<Rightarrow> if s (d @ [n]) = None then None else Some Malformed))"

text \<open>
  \<^verbatim>\<open>open(feedback_path, 'w')\<close> followed by \<^verbatim>\<open>json.dump\<close>: fails (\<open>None\<close>) when the path does
  not resolve or names a directory, replaces the file when it is there and creates it
  otherwise.
\<close>

definition write_file :: "store \<Rightarrow> path \<Rightarrow> string \<Rightarrow> string \<Rightarrow> json \<Rightarrow> store option" where
  "write_file s feedback_dir feedback_type feedback_id j =
     (case locate s feedback_dir feedback_type feedback_id of
        None \<Rightarrow> None
      | Some (d, n) \<Rightarrow>
          (case s d of
             None \<Rightarrow> None
           | Some files \<Rightarrow>
               if s (d @ [n]) \<noteq> None then None
               else Some (s(d \<mapsto> AList.update n (Doc j) files))))"

text \<open>
  The directory \<^verbatim>\<open>os.path.join(self.feedback_dir, t)\<close> of a type \<open>t\<close> of the closed set, as
  \<^verbatim>\<open>os.path.exists\<close> and \<^verbatim>\<open>os.listdir\<close> see it.
\<close>

type_synonym partitions = "string \<Rightarrow> directory option"

definition partition :: "store \<Rightarrow> path \<Rightarrow> partitions" where
  "partition s feedback_dir t = s (feedback_dir @ [t])"

subsection \<open>submit, get, update\<close>

text \<open>
  \<^verbatim>\<open>submit_feedback\<close>. The identifier drawn from \<^verbatim>\<open>uuid.uuid4()\<close> and the two readings of
  \<^verbatim>\<open>datetime.now().isoformat()\<close> are inputs. The result is the returned string (empty when the
  write failed) and the store afterwards.
\<close>

definition submit_feedback ::
  "store \<Rightarrow> path \<Rightarrow> string \<Rightarrow> string \<Rightarrow> string \<Rightarrow> string \<Rightarrow> string \<Rightarrow> string \<Rightarrow> string \<Rightarrow>
   string list option \<Rightarrow> (string \<times> json) list option \<Rightarrow> string \<times> store" where
  "submit_feedback s feedback_dir uuid now1 now2 feedback_type title description priority
       tags context =
     (let feedback_type = (if feedback_type \<notin> set FEEDBACK_TYPES then ''other'' else feedback_type);
          priority = (if priority \<notin> set FEEDBACK_PRIORITIES then ''medium'' else priority);
          feedback_id = uuid;
          feedback_data = JObj
            [(''id'', JStr feedback_id),
             (''type'', JStr feedback_type),
             (''title'', JStr title),
             (''description'', JStr description),
             (''priority'', JStr priority),
             (''tags'', JList (map JStr (case tags of None \<Rightarrow> [] | Some ts \<Rightarrow> ts))),
             (''context'', JObj (case context of None \<Rightarrow> [] | Some c \<Rightarrow> c)),
             (''status'', JStr ''new''),
             (''created_at'', JStr now1),
             (''updated_at'', JStr now2),
             (''comments'', JList [])]
      in case write_file s feedback_dir feedback_type feedback_id feedback_data of
           None \<Rightarrow> ('''', s)
         | Some s' \<Rightarrow> (feedback_id, s'))"

text \<open>
  \<^verbatim>\<open>get_feedback\<close>: the partitions are tried in the fixed order; the first one in which the
  path exists decides, also when what is there cannot be read. \<open>JNull\<close> is the \<^verbatim>\<open>None\<close> of
  not found.
\<close>

fun get_feedback_in :: "store \<Rightarrow> path \<Rightarrow> string list \<Rightarrow> string \<Rightarrow> json" where
  "get_feedback_in s feedback_dir [] feedback_id = JNull"
| "get_feedback_in s feedback_dir (feedback_type # rest) feedback_id =
     (case read_file s feedback_dir feedback_type feedback_id of
        None \<Rightarrow> get_feedback_in s feedback_dir rest feedback_id
      | Some Malformed \<Rightarrow> JNull
      | Some (Doc j) \<Rightarrow> j)"

definition get_feedback :: "store \<Rightarrow> path \<Rightarrow> string \<Rightarrow> json" where
  "get_feedback s feedback_dir feedback_id =
     get_feedback_in s feedback_dir FEEDBACK_TYPES feedback_id"

text \<open>
  \<^verbatim>\<open>update_feedback\<close>. \<open>now\<close> is the reading of the clock, \<open>updates\<close> the items of the payload
  in iteration order. Item assignment on a loaded value that is not a dict, a record without
  \<^verbatim>\<open>"type"\<close> and a \<^verbatim>\<open>"type"\<close> that is not a string raise outside the \<^verbatim>\<open>try\<close>.
\<close>

definition apply_update :: "(string \<times> json) list \<Rightarrow> string \<times> json \<Rightarrow> (string \<times> json) list" where
  "apply_update feedback_data kv =
     (if fst kv \<in> {''id'', ''created_at''} then feedback_data
      else AList.update (fst kv) (snd kv) feedback_data)"

definition update_feedback ::
  "store \<Rightarrow> path \<Rightarrow> string \<Rightarrow> string \<Rightarrow> (string \<times> json) list \<Rightarrow> error + (bool \<times> store)" where
  "update_feedback s feedback_dir now feedback_id updates =
     (let feedback_data = get_feedback s feedback_dir feedback_id in
      if \<not> truthy feedback_data then Inr (False, s)
      else case feedback_data of
        JObj d \<Rightarrow>
          (let d1 = foldl apply_update d updates;
               d2 = AList.update ''updated_at'' (JStr now) d1
           in case map_of d2 ''type'' of
                None \<Rightarrow> Inl KeyError
              | Some (JStr feedback_type) \<Rightarrow>
                  (case write_file s feedback_dir feedback_type feedback_id (JObj d2) of
                     None \<Rightarrow> Inr (False, s)
                   | Some s' \<Rightarrow> Inr (True, s'))
              | Some _ \<Rightarrow> Inl TypeError)
      | _ \<Rightarrow> Inl TypeError)"

subsection \<open>list\<close>

text \<open>
  \<^verbatim>\<open>if status and feedback_data.get("status") != status: continue\<close>, read as the test the
  record has to pass; a filter that is \<^verbatim>\<open>None\<close> or empty is not truthy and tests nothing.
  \<open>Inl\<close> is the exception that the \<^verbatim>\<open>try\<close> around it catches.
\<close>

definition field_equals :: "string option \<Rightarrow> string \<Rightarrow> json \<Rightarrow> error + bool" where
  "field_equals flt k feedback_data =
     (case flt of
        None \<Rightarrow> Inr True
      | Some v \<Rightarrow>
          if v = [] then Inr True
          else (case py_get feedback_data k JNull of
                  Inl e \<Rightarrow> Inl e
                | Inr x \<Rightarrow> Inr (x = JStr v)))"

text \<open>
  \<^verbatim>\<open>all(tag in feedback_tags for tag in tags)\<close> for a non-empty \<open>tags\<close>: membership in a
  list, substring of a string, key of a dict; any other value is not a container.
\<close>

definition all_tags_in :: "string list \<Rightarrow> json \<Rightarrow> error + bool" where
  "all_tags_in tags feedback_tags =
     (case feedback_tags of
        JList xs \<Rightarrow> Inr (list_all (\<lambda>tag. JStr tag \<in> set xs) tags)
      | JStr s \<Rightarrow> Inr (list_all (\<lambda>tag. sublist tag s) tags)
      | JObj d \<Rightarrow> Inr (list_all (\<lambda>tag. tag \<in> fst ` set d) tags)
      | _ \<Rightarrow> Inl TypeError)"

definition tags_present :: "string list option \<Rightarrow> json \<Rightarrow> error + bool" where
  "tags_present tags feedback_data =
     (case tags of
        None \<Rightarrow> Inr True
      | Some ts \<Rightarrow>
          if ts = [] then Inr True
          else (case py_get feedback_data ''tags'' (JList []) of
                  Inl e \<Rightarrow> Inl e
                | Inr feedback_tags \<Rightarrow> all_tags_in ts feedback_tags))"

definition passes_filters ::
  "string option \<Rightarrow> string option \<Rightarrow> string list option \<Rightarrow> json \<Rightarrow> error + bool" where
  "passes_filters status priority tags feedback_data =
     (case field_equals status ''status'' feedback_data of
        Inl e \<Rightarrow> Inl e
      | Inr False \<Rightarrow> Inr False
      | Inr True \<Rightarrow>
          (case field_equals priority ''priority'' feedback_data of
             Inl e \<Rightarrow> Inl e
           | Inr False \<Rightarrow> Inr False
           | Inr True \<Rightarrow> tags_present tags feedback_data))"

text \<open>
  The inner loop over \<^verbatim>\<open>os.listdir(directory)\<close> and the outer loop over the directories,
  each leaving as soon as \<^verbatim>\<open>len(results) >= limit\<close>. A file that does not parse, or whose
  test raises, is logged and skipped. \<open>dirs\<close> gives the listing of the directory of a type.
\<close>

fun scan_files ::
  "string option \<Rightarrow> string option \<Rightarrow> string list option \<Rightarrow> int \<Rightarrow>
   directory \<Rightarrow> json list \<Rightarrow> json list" where
  "scan_files status priority tags limit [] results = results"
| "scan_files status priority tags limit ((filename, c) # rest) results =
     (if \<not> endswith filename ''.json'' then scan_files status priority tags limit rest results
      else case c of
        Malformed \<Rightarrow> scan_files status priority tags limit rest results
      | Doc feedback_data \<Rightarrow>
          (case passes_filters status priority tags feedback_data of
             Inr True \<Rightarrow>
               (if int (length (results @ [feedback_data])) \<ge> limit
                then results @ [feedback_data]
                else scan_files status priority tags limit rest (results @ [feedback_data]))
           | _ \<Rightarrow> scan_files status priority tags limit rest results))"

fun scan_dirs ::
  "partitions \<Rightarrow> string option \<Rightarrow> string option \<Rightarrow> string list option \<Rightarrow> int \<Rightarrow>
   string list \<Rightarrow> json list \<Rightarrow> json list" where
  "scan_dirs dirs status priority tags limit [] results = results"
| "scan_dirs dirs status priority tags limit (directory # rest) results =
     (case dirs directory of
        None \<Rightarrow> scan_dirs dirs status priority tags limit rest results
      | Some files \<Rightarrow>
          (let results' = scan_files status priority tags limit files results
           in if int (length results') \<ge> limit then results'
              else scan_dirs dirs status priority tags limit rest results'))"

text \<open>
  \<^verbatim>\<open>results.sort(key=lambda x: x.get("created_at", ""), reverse=True)\<close>. The key is computed
  for every result first and raises on a result that is not a dict; fewer than two results
  need no comparison. When every key is a string, the order is that of the strings,
  character by character: with \<^verbatim>\<open>reverse=True\<close> the list is reversed, sorted stably in
  ascending order and reversed again. For keys of any other kind the outcome of the sort, a
  list or the exception of a comparison, is that of the parameter \<open>list_sort\<close>.
\<close>

definition created_key :: "json \<Rightarrow> error + json" where
  "created_key x = py_get x ''created_at'' (JStr [])"

fun is_str :: "json \<Rightarrow> bool" where
  "is_str (JStr s) = True"
| "is_str _ = False"

fun str_of :: "json \<Rightarrow> string" where
  "str_of (JStr s) = s"
| "str_of _ = []"

definition the_key :: "json \<Rightarrow> json" where
  "the_key x = (case created_key x of Inr k \<Rightarrow> k | Inl e \<Rightarrow> JNull)"

definition sort_newest_first ::
  "(json list \<Rightarrow> error + json list) \<Rightarrow> json list \<Rightarrow> error + json list" where
  "sort_newest_first list_sort results =
     (if list_ex (\<lambda>x. isl (created_key x)) results then Inl AttributeError
      else if length results < 2 then Inr results
      else if list_all (\<lambda>x. is_str (the_key x)) results
        then Inr (rev (sort_key (\<lambda>x. str_of (the_key x)) (rev results)))
      else list_sort results)"

text \<open>The slice \<^verbatim>\<open>results[:limit]\<close>; a negative bound counts from the end.\<close>

definition slice_to :: "'a list \<Rightarrow> int \<Rightarrow> 'a list" where
  "slice_to xs limit =
     (if limit \<ge> 0 then take (nat limit) xs else take (nat (int (length xs) + limit)) xs)"

definition search_directories :: "string option \<Rightarrow> string list" where
  "search_directories feedback_type =
     (case feedback_type of
        None \<Rightarrow> FEEDBACK_TYPES
      | Some t \<Rightarrow>
          if t = [] then FEEDBACK_TYPES
          else if t \<in> set FEEDBACK_TYPES then [t]
          else FEEDBACK_TYPES)"

definition list_feedback ::
  "(json list \<Rightarrow> error + json list) \<Rightarrow> store \<Rightarrow> path \<Rightarrow> string option \<Rightarrow> string option \<Rightarrow>
   string option \<Rightarrow> string list option \<Rightarrow> int \<Rightarrow> error + json list" where
  "list_feedback list_sort s feedback_dir feedback_type status priority tags limit =
     (let results =
        scan_dirs (partition s feedback_dir) status priority tags limit
          (search_directories feedback_type) []
      in case sort_newest_first list_sort results of
           Inl e \<Rightarrow> Inl e
         | Inr sorted_results \<Rightarrow> Inr (slice_to sorted_results limit))"

subsection \<open>stats\<close>

record stats =
  total :: nat
  by_type :: "(string \<times> nat) list"
  by_status :: "(string \<times> nat) list"
  by_priority :: "(string \<times> nat) list"

text \<open>
  \<^verbatim>\<open>x in counters\<close> for a dict with string keys: an array or an object is unhashable and
  raises, any other value is looked up.
\<close>

definition in_counters :: "json \<Rightarrow> (string \<times> nat) list \<Rightarrow> error + bool" where
  "in_counters x counters =
     (case x of
        JList xs \<Rightarrow> Inl TypeError
      | JObj d \<Rightarrow> Inl TypeError
      | JStr k \<Rightarrow> Inr (k \<in> fst ` set counters)
      | _ \<Rightarrow> Inr False)"

text \<open>
  The body of the \<^verbatim>\<open>try\<close> for one file of the partition \<open>feedback_type\<close>. An exception
  is caught after the statements before it have taken effect.
\<close>

definition count_file :: "string \<Rightarrow> stats \<Rightarrow> content \<Rightarrow> stats" where
  "count_file feedback_type st c =
     (case c of
        Malformed \<Rightarrow> st
      | Doc feedback_data \<Rightarrow>
          (let st1 = st\<lparr>total := total st + 1,
                         by_type := AList.map_entry feedback_type Suc (by_type st)\<rparr>
           in case py_get feedback_data ''status'' (JStr ''new'') of
                Inl e \<Rightarrow> st1
              | Inr status \<Rightarrow>
                  (case in_counters status (by_status st1) of
                     Inl e \<Rightarrow> st1
                   | Inr b \<Rightarrow>
                       (let st2 = (if b
                              then st1\<lparr>by_status :=
                                     AList.map_entry (str_of status) Suc (by_status st1)\<rparr>
                              else st1)
                        in case py_get feedback_data ''priority'' (JStr ''medium'') of
                             Inl e \<Rightarrow> st2
                           | Inr priority \<Rightarrow>
                               (case in_counters priority (by_priority st2) of
                                  Inl e \<Rightarrow> st2
                                | Inr b' \<Rightarrow>
                                    if b'
                                    then st2\<lparr>by_priority :=
                                           AList.map_entry (str_of priority) Suc (by_priority st2)\<rparr>
                                    else st2)))))"

fun count_files :: "string \<Rightarrow> directory \<Rightarrow> stats \<Rightarrow> stats" where
  "count_files feedback_type [] st = st"
| "count_files feedback_type ((filename, c) # rest) st =
     (if \<not> endswith filename ''.json'' then count_files feedback_type rest st
      else count_files feedback_type rest (count_file feedback_type st c))"

fun count_dirs :: "partitions \<Rightarrow> string list \<Rightarrow> stats \<Rightarrow> stats" where
  "count_dirs dirs [] st = st"
| "count_dirs dirs (feedback_type # rest) st =
     (case dirs feedback_type of
        None \<Rightarrow> count_dirs dirs rest st
      | Some files \<Rightarrow> count_dirs dirs rest (count_files feedback_type files st))"

definition zero_counters :: "string list \<Rightarrow> (string \<times> nat) list" where
  "zero_counters ks = foldl (\<lambda>counters k. AList.update k 0 counters) [] ks"

definition get_feedback_stats :: "store \<Rightarrow> path \<Rightarrow> stats" where
  "get_feedback_stats s feedback_dir =
     count_dirs (partition s feedback_dir) FEEDBACK_TYPES
       \<lparr>total = 0,
        by_type = zero_counters FEEDBACK_TYPES,
        by_status = zero_counters FEEDBACK_STATUSES,
        by_priority = zero_counters FEEDBACK_PRIORITIES\<rparr>"

subsection \<open>export and import\<close>

text \<open>
  \<^verbatim>\<open>export_feedback\<close>: the document it builds, and whether writing it to \<open>output_path\<close>
  succeeded (\<open>writable\<close>). An exception of \<^verbatim>\<open>list_feedback\<close> is not caught.
\<close>

definition export_document :: "string \<Rightarrow> json list \<Rightarrow> json" where
  "export_document now feedback_list =
     JObj [(''exported_at'', JStr now),
           (''total'', JInt (int (length feedback_list))),
           (''feedback'', JList feedback_list)]"

definition export_feedback ::
  "(json list \<Rightarrow> error + json list) \<Rightarrow> store \<Rightarrow> path \<Rightarrow> string \<Rightarrow> bool \<Rightarrow> string option \<Rightarrow>
   string option \<Rightarrow> error + (bool \<times> content option)" where
  "export_feedback list_sort s feedback_dir now writable feedback_type status =
     (case list_feedback list_sort s feedback_dir feedback_type status None None 1000 of
        Inl e \<Rightarrow> Inl e
      | Inr feedback_list \<Rightarrow>
          if writable then Inr (True, Some (Doc (export_document now feedback_list)))
          else Inr (False, None))"

text \<open>
  \<^verbatim>\<open>for feedback_data in feedback_list\<close>: a list yields its elements, a string its
  characters, a dict its keys; anything else is not iterable.
\<close>

definition py_iter :: "json \<Rightarrow> error + json list" where
  "py_iter x =
     (case x of
        JList xs \<Rightarrow> Inr xs
      | JStr cs \<Rightarrow> Inr (map (\<lambda>c. JStr [c]) cs)
      | JObj d \<Rightarrow> Inr (map (\<lambda>kv. JStr (fst kv)) d)
      | _ \<Rightarrow> Inl TypeError)"

text \<open>
  The text that \<^verbatim>\<open>f"{feedback_id}.json"\<close> renders for an identifier: the string itself,
  and Python's \<^verbatim>\<open>str\<close> of any other value, which is the parameter \<open>py_str\<close>.
\<close>

definition id_text :: "(json \<Rightarrow> string) \<Rightarrow> json \<Rightarrow> string" where
  "id_text py_str x = (case x of JStr i \<Rightarrow> i | _ \<Rightarrow> py_str x)"

text \<open>
  The loop of \<^verbatim>\<open>import_feedback\<close>. An exception that is not a failed write leaves the loop;
  the files written before it stay.
\<close>

fun import_loop ::
  "(json \<Rightarrow> string) \<Rightarrow> path \<Rightarrow> json list \<Rightarrow> store \<times> nat \<Rightarrow> store \<times> (error + nat)" where
  "import_loop py_str feedback_dir [] (s, imported_count) = (s, Inr imported_count)"
| "import_loop py_str feedback_dir (feedback_data # rest) (s, imported_count) =
     (case feedback_data of
        JObj d \<Rightarrow>
          (let feedback_id = dict_get d ''id'' JNull;
               feedback_type = dict_get d ''type'' JNull
           in if \<not> truthy feedback_id \<or> \<not> truthy feedback_type
              then import_loop py_str feedback_dir rest (s, imported_count)
              else if truthy (get_feedback s feedback_dir (id_text py_str feedback_id))
              then import_loop py_str feedback_dir rest (s, imported_count)
              else (case feedback_type of
                      JStr t \<Rightarrow>
                        (case write_file s feedback_dir t (id_text py_str feedback_id)
                                feedback_data of
                           None \<Rightarrow> import_loop py_str feedback_dir rest (s, imported_count)
                         | Some s' \<Rightarrow>
                             import_loop py_str feedback_dir rest (s', Suc imported_count))
                    | _ \<Rightarrow> (s, Inl TypeError)))
      | _ \<Rightarrow> (s, Inl AttributeError))"

text \<open>
  \<^verbatim>\<open>import_feedback\<close>; \<open>input\<close> is what is at \<open>input_path\<close>, \<open>None\<close> when it cannot be
  opened. Every exception ends in \<^verbatim>\<open>return 0\<close>.
\<close>

definition import_feedback ::
  "(json \<Rightarrow> string) \<Rightarrow> store \<Rightarrow> path \<Rightarrow> content option \<Rightarrow> nat \<times> store" where
  "import_feedback py_str s feedback_dir input =
     (case input of
        None \<Rightarrow> (0, s)
      | Some Malformed \<Rightarrow> (0, s)
      | Some (Doc import_data) \<Rightarrow>
          (case py_get import_data ''feedback'' (JList []) of
             Inl e \<Rightarrow> (0, s)
           | Inr feedback_list \<Rightarrow>
               (case py_iter feedback_list of
                  Inl e \<Rightarrow> (0, s)
                | Inr items \<Rightarrow>
                    (case import_loop py_str feedback_dir items (s, 0) of
                       (s', Inl e) \<Rightarrow> (0, s')
                     | (s', Inr imported_count) \<Rightarrow> (imported_count, s')))))"

subsection \<open>cleanup\<close>

text \<open>
  The checks of \<^verbatim>\<open>cleanup_old_feedback\<close> on one loaded file. Time stamps are Python floats,
  values of a type \<open>'f\<close> that comes with the operations used on them: \<open>fromisoformat\<close> is
  \<^verbatim>\<open>datetime.fromisoformat(created_at).timestamp()\<close>, \<open>None\<close> when it raises, and \<open>float_gt\<close>
  is \<^verbatim>\<open>>\<close> on two floats. Every exception is caught and the file is kept. \<open>status_selected\<close>
  is the status test on a dict, passed when the filter is \<^verbatim>\<open>None\<close> or empty.
\<close>

definition status_selected :: "string option \<Rightarrow> (string \<times> json) list \<Rightarrow> bool" where
  "status_selected status d =
     (case status of
        None \<Rightarrow> True
      | Some st \<Rightarrow> st = [] \<or> dict_get d ''status'' JNull = JStr st)"

definition old_enough ::
  "(string \<Rightarrow> 'f option) \<Rightarrow> ('f \<Rightarrow> 'f \<Rightarrow> bool) \<Rightarrow> 'f \<Rightarrow> string option \<Rightarrow> content \<Rightarrow> bool" where
  "old_enough fromisoformat float_gt cutoff_date status c =
     (case c of
        Malformed \<Rightarrow> False
      | Doc feedback_data \<Rightarrow>
          (case feedback_data of
             JObj d \<Rightarrow>
               (let created_at = dict_get d ''created_at'' (JStr [])
                in if \<not> truthy created_at then False
                   else (case created_at of
                           JStr ca \<Rightarrow>
                             (case fromisoformat ca of
                                None \<Rightarrow> False
                              | Some created_timestamp \<Rightarrow>
                                  if float_gt created_timestamp cutoff_date then False
                                  else if \<not> status_selected status d then False
                                  else True)
                         | _ \<Rightarrow> False))
           | _ \<Rightarrow> False))"

text \<open>
  The loop over the names that \<^verbatim>\<open>os.listdir\<close> returned; each file is opened when its turn
  comes, and \<^verbatim>\<open>os.remove\<close> deletes it from the directory.
\<close>

fun cleanup_files ::
  "(string \<Rightarrow> 'f option) \<Rightarrow> ('f \<Rightarrow> 'f \<Rightarrow> bool) \<Rightarrow> 'f \<Rightarrow> string option \<Rightarrow> string list \<Rightarrow>
   directory \<times> nat \<Rightarrow> directory \<times> nat" where
  "cleanup_files fromisoformat float_gt cutoff_date status [] (files, removed_count) =
     (files, removed_count)"
| "cleanup_files fromisoformat float_gt cutoff_date status (filename # rest)
       (files, removed_count) =
     (if \<not> endswith filename ''.json''
      then cleanup_files fromisoformat float_gt cutoff_date status rest (files, removed_count)
      else case map_of files filename of
        None \<Rightarrow>
          cleanup_files fromisoformat float_gt cutoff_date status rest (files, removed_count)
      | Some c \<Rightarrow>
          if old_enough fromisoformat float_gt cutoff_date status c
          then cleanup_files fromisoformat float_gt cutoff_date status rest
                 (AList.delete filename files, Suc removed_count)
          else cleanup_files fromisoformat float_gt cutoff_date status rest
                 (files, removed_count))"

fun cleanup_dirs ::
  "(string \<Rightarrow> 'f option) \<Rightarrow> ('f \<Rightarrow> 'f \<Rightarrow> bool) \<Rightarrow> 'f \<Rightarrow> string option \<Rightarrow> path \<Rightarrow>
   string list \<Rightarrow> store \<times> nat \<Rightarrow> store \<times> nat" where
  "cleanup_dirs fromisoformat float_gt cutoff_date status feedback_dir [] (s, removed_count) =
     (s, removed_count)"
| "cleanup_dirs fromisoformat float_gt cutoff_date status feedback_dir (feedback_type # rest)
       (s, removed_count) =
     (case partition s feedback_dir feedback_type of
        None \<Rightarrow>
          cleanup_dirs fromisoformat float_gt cutoff_date status feedback_dir rest
            (s, removed_count)
      | Some files \<Rightarrow>
          (case cleanup_files fromisoformat float_gt cutoff_date status (map fst files)
                  (files, removed_count) of
             (files', removed_count') \<Rightarrow>
               cleanup_dirs fromisoformat float_gt cutoff_date status feedback_dir rest
                 (s(feedback_dir @ [feedback_type] \<mapsto> files'), removed_count')))"

text \<open>
  \<^verbatim>\<open>cutoff_date = datetime.now().timestamp() - (days * 24 * 60 * 60)\<close>: the product is an
  integer of any size, \<open>float_of_int\<close> converts it for the subtraction and is \<open>None\<close> when
  the integer is too large for a float, which raises \<^verbatim>\<open>OverflowError\<close> before any file is
  looked at; \<open>float_sub\<close> is the subtraction of floats, with its rounding.
\<close>

definition cleanup_old_feedback ::
  "(string \<Rightarrow> 'f option) \<Rightarrow> (int \<Rightarrow> 'f option) \<Rightarrow> ('f \<Rightarrow> 'f \<Rightarrow> 'f) \<Rightarrow> ('f \<Rightarrow> 'f \<Rightarrow> bool) \<Rightarrow>
   store \<Rightarrow> path \<Rightarrow> 'f \<Rightarrow> int \<Rightarrow> string option \<Rightarrow> error + (nat \<times> store)" where
  "cleanup_old_feedback fromisoformat float_of_int float_sub float_gt s feedback_dir now days
       status =
     (case float_of_int (days * 24 * 60 * 60) of
        None \<Rightarrow> Inl OverflowError
      | Some seconds \<Rightarrow>
          (let cutoff_date = float_sub now seconds
           in case cleanup_dirs fromisoformat float_gt cutoff_date status feedback_dir
                     FEEDBACK_TYPES (s, 0) of
                (s', removed_count) \<Rightarrow> Inr (removed_count, s')))"

subsection \<open>Vocabulary of the properties\<close>

text \<open>
  \<^verbatim>\<open>feedback_dir\<close> and the five partitions exist, as they do after \<^verbatim>\<open>__init__\<close>. An
  identifier is plain when it is a file name and not a path: it has no slash (and no null
  character), as is the case for the string of a UUID.
\<close>

definition partitions_exist :: "store \<Rightarrow> path \<Rightarrow> bool" where
  "partitions_exist s feedback_dir =
     (s feedback_dir \<noteq> None \<and> list_all (\<lambda>t. s (feedback_dir @ [t]) \<noteq> None) FEEDBACK_TYPES)"

definition plain :: "string \<Rightarrow> bool" where
  "plain feedback_id = (CHR ''/'' \<notin> set feedback_id \<and> CHR 0x00 \<notin> set feedback_id)"

text \<open>No partition has a directory with the name of the file of the identifier.\<close>

definition no_directory_named :: "store \<Rightarrow> path \<Rightarrow> string \<Rightarrow> bool" where
  "no_directory_named s feedback_dir feedback_id =
     list_all (\<lambda>t. s (feedback_dir @ [t, json_name feedback_id]) = None) FEEDBACK_TYPES"

text \<open>
  Nothing is at the path of the identifier in any partition; only in the partition \<open>t\<close> may
  something be at that path.
\<close>

definition stored_nowhere :: "store \<Rightarrow> path \<Rightarrow> string \<Rightarrow> bool" where
  "stored_nowhere s feedback_dir feedback_id =
     list_all (\<lambda>t. read_file s feedback_dir t feedback_id = None) FEEDBACK_TYPES"

definition stored_only_in :: "store \<Rightarrow> path \<Rightarrow> string \<Rightarrow> string \<Rightarrow> bool" where
  "stored_only_in s feedback_dir feedback_id t =
     list_all (\<lambda>u. u = t \<or> read_file s feedback_dir u feedback_id = None) FEEDBACK_TYPES"

text \<open>Partition \<open>a\<close> comes before partition \<open>b\<close> in the order in which \<^verbatim>\<open>get_feedback\<close> searches.\<close>

definition searched_before :: "string \<Rightarrow> string \<Rightarrow> bool" where
  "searched_before a b = (a \<in> set (takeWhile (\<lambda>t. t \<noteq> b) FEEDBACK_TYPES))"

subsection \<open>Example data\<close>

text \<open>
  A file system that has \<^verbatim>\<open>feedback_dir\<close>, the directories above it and the five partitions,
  and no file: what \<^verbatim>\<open>__init__\<close> makes of an empty disk.
\<close>

definition empty_store :: "path \<Rightarrow> store" where
  "empty_store feedback_dir p =
     (if prefix p feedback_dir \<or> list_ex (\<lambda>t. p = feedback_dir @ [t]) FEEDBACK_TYPES
      then Some [] else None)"

definition example_dir :: path where
  "example_dir = [''home'', ''agent'', ''Agentic'', ''feedback'']"

definition example_record :: "(string \<times> json) list" where
  "example_record =
     [(''id'', JStr ''a1''),
      (''type'', JStr ''issue''),
      (''title'', JStr ''Crash on start''),
      (''description'', JStr ''Trace attached''),
      (''priority'', JStr ''high''),
      (''tags'', JList [JStr ''cli'', JStr ''startup'']),
      (''context'', JObj [(''os'', JStr ''linux'')]),
      (''status'', JStr ''new''),
      (''created_at'', JStr ''2024-05-01T10:00:00''),
      (''updated_at'', JStr ''2024-05-01T10:00:00''),
      (''comments'', JList [])]"

definition example_store :: store where
  "example_store =
     (empty_store example_dir)
       (example_dir @ [''issue''] \<mapsto> [(''a1.json'', Doc (JObj example_record))])"




definition example_retype :: "(string \<times> json) list" where
  "example_retype = [(''type'', JStr ''question''), (''status'', JStr ''acknowledged'')]"


subsection \<open>What a scan of the store reads\<close>

text \<open>
  The values that a scan loads from a directory, in listing order: one for each file whose
  name ends in \<^verbatim>\<open>.json\<close> and that parses. \<open>all_records\<close> are those of the five partitions, in
  the order of the scan.
\<close>

fun loaded :: "directory \<Rightarrow> json list" where
  "loaded [] = []"
| "loaded ((filename, c) # rest) =
     (if endswith filename ''.json''
      then (case c of Doc j \<Rightarrow> j # loaded rest | Malformed \<Rightarrow> loaded rest)
      else loaded rest)"

definition partition_records :: "partitions \<Rightarrow> string \<Rightarrow> json list" where
  "partition_records dirs t = (case dirs t of None \<Rightarrow> [] | Some files \<Rightarrow> loaded files)"

definition all_records :: "partitions \<Rightarrow> json list" where
  "all_records dirs = concat (map (partition_records dirs) FEEDBACK_TYPES)"

subsection \<open>Vocabulary for list\<close>

text \<open>
  The values that \<^verbatim>\<open>list_feedback\<close> can reach for a type filter, and those of them that pass
  the other filters.
\<close>

definition searched_records :: "partitions \<Rightarrow> string option \<Rightarrow> json list" where
  "searched_records dirs feedback_type =
     concat (map (partition_records dirs) (search_directories feedback_type))"

definition matching ::
  "string option \<Rightarrow> string option \<Rightarrow> string list option \<Rightarrow> json list \<Rightarrow> json list" where
  "matching status priority tags js =
     filter (\<lambda>j. passes_filters status priority tags j = Inr True) js"

text \<open>
  The order of two \<^verbatim>\<open>created_at\<close> keys that are strings, \<^verbatim>\<open>k1 <= k2\<close>; a value has a string
  key when it is a dict whose \<^verbatim>\<open>created_at\<close> is a string or missing.
\<close>

definition key_le :: "json \<Rightarrow> json \<Rightarrow> bool" where
  "key_le k1 k2 = (is_str k1 \<and> is_str k2 \<and> str_of k1 \<le> str_of k2)"

definition has_string_key :: "json \<Rightarrow> bool" where
  "has_string_key x = is_str (the_key x)"

text \<open>
  What is known of every sort: when it returns, the list it leaves holds the elements it was
  given, each as often as before.
\<close>

definition returns_permutation :: "(json list \<Rightarrow> error + json list) \<Rightarrow> bool" where
  "returns_permutation list_sort =
     (\<forall>xs ys. list_sort xs = Inr ys \<longrightarrow> mset ys = mset xs)"

text \<open>
  A stand-in for the sort of keys that are not strings, for the examples, in which every
  key is a string.
\<close>

definition example_sort :: "json list \<Rightarrow> error + json list" where
  "example_sort results = Inl TypeError"

text \<open>
  A filter on a field is absent (\<^verbatim>\<open>None\<close> or empty) or equal to the field; a tags filter is
  absent or each of its tags is among the record's tags.
\<close>

definition absent_or_equal :: "string option \<Rightarrow> json \<Rightarrow> bool" where
  "absent_or_equal flt x = (case flt of None \<Rightarrow> True | Some v \<Rightarrow> v = [] \<or> x = JStr v)"

definition absent_or_all_present :: "string list option \<Rightarrow> json list \<Rightarrow> bool" where
  "absent_or_all_present tags record_tags =
     (case tags of None \<Rightarrow> True | Some ts \<Rightarrow> list_all (\<lambda>tag. JStr tag \<in> set record_tags) ts)"

text \<open>
  Three records, created in the order \<open>rec1\<close>, \<open>rec2\<close>, \<open>rec3\<close>, in two partitions of a store.
\<close>

definition example_rec ::
  "string \<Rightarrow> string \<Rightarrow> string \<Rightarrow> string \<Rightarrow> string list \<Rightarrow> string \<Rightarrow> (string \<times> json) list" where
  "example_rec i t st pr tags created =
     [(''id'', JStr i), (''type'', JStr t), (''title'', JStr ''Title''),
      (''description'', JStr ''Text''), (''priority'', JStr pr),
      (''tags'', JList (map JStr tags)), (''context'', JObj []), (''status'', JStr st),
      (''created_at'', JStr created), (''updated_at'', JStr created), (''comments'', JList [])]"

definition rec1 :: "(string \<times> json) list" where
  "rec1 = example_rec ''r1'' ''question'' ''new'' ''low'' [''a''] ''2024-05-01T10:00:00''"

definition rec2 :: "(string \<times> json) list" where
  "rec2 = example_rec ''r2'' ''issue'' ''new'' ''high'' [''a'', ''b''] ''2024-05-02T09:30:00''"

definition rec3 :: "(string \<times> json) list" where
  "rec3 = example_rec ''r3'' ''issue'' ''resolved'' ''high'' [''b''] ''2024-05-02T09:30:00.250000''"

definition three_store :: store where
  "three_store = (empty_store example_dir)
     (example_dir @ [''issue''] \<mapsto>
        [(''r2.json'', Doc (JObj rec2)), (''r3.json'', Doc (JObj rec3))],
      example_dir @ [''question''] \<mapsto> [(''r1.json'', Doc (JObj rec1))])"

subsection \<open>Example data for stats and cleanup\<close>

text \<open>
  A store with one record, whose \<^verbatim>\<open>status\<close> is an array and whose \<^verbatim>\<open>priority\<close> is \<^verbatim>\<open>low\<close>, as
  \<^verbatim>\<open>update_feedback\<close> with the payload \<^verbatim>\<open>{"status": ["new"]}\<close> leaves it.
\<close>

definition rec_array_status :: "(string \<times> json) list" where
  "rec_array_status =
     [(''id'', JStr ''s1''), (''type'', JStr ''issue''), (''title'', JStr ''Title''),
      (''description'', JStr ''Text''), (''priority'', JStr ''low''),
      (''tags'', JList []), (''context'', JObj []), (''status'', JList [JStr ''new'']),
      (''created_at'', JStr ''2024-05-01T10:00:00''),
      (''updated_at'', JStr ''2024-05-03T10:00:00''), (''comments'', JList [])]"

definition array_status_store :: store where
  "array_status_store = (empty_store example_dir)
     (example_dir @ [''issue''] \<mapsto> [(''s1.json'', Doc (JObj rec_array_status))])"

text \<open>
  A store with one record, created at 2024-01-01T00:00:00, which is 1704067200 seconds
  after the epoch; thirty days later the clock reads 1706659200. These numbers and their
  difference are whole numbers below \<open>2\<^sup>5\<^sup>3\<close>, on which the arithmetic of Python's floats
  is exact: \<open>whole_seconds\<close>, \<open>example_fromisoformat\<close> and the subtraction and order of
  the real numbers are the float operations on them.
\<close>

definition rec_edge :: "(string \<times> json) list" where
  "rec_edge = example_rec ''edge'' ''issue'' ''resolved'' ''low'' [] ''2024-01-01T00:00:00''"

definition edge_store :: store where
  "edge_store = (empty_store example_dir)
     (example_dir @ [''issue''] \<mapsto> [(''edge.json'', Doc (JObj rec_edge))])"

definition whole_seconds :: "int \<Rightarrow> real option" where
  "whole_seconds i = Some (real_of_int i)"

definition example_fromisoformat :: "string \<Rightarrow> real option" where
  "example_fromisoformat ca =
     (if ca = ''2024-01-01T00:00:00'' then Some 1704067200 else None)"

subsection \<open>Vocabulary for export and import\<close>

text \<open>
  \<open>file_count\<close> is the number of files in the five partitions. The identifier of a record
  is its \<^verbatim>\<open>id\<close> when that is a string, and its type is its \<^verbatim>\<open>type\<close> when that is a string.
  \<^verbatim>\<open>import_feedback\<close> can place a record that has a non-empty plain string as \<^verbatim>\<open>id\<close> and one
  of the five types as \<^verbatim>\<open>type\<close>.
\<close>

definition file_count :: "partitions \<Rightarrow> nat" where
  "file_count dirs =
     sum_list (map (\<lambda>t. case dirs t of None \<Rightarrow> 0 | Some files \<Rightarrow> length files) FEEDBACK_TYPES)"

definition record_id :: "json \<Rightarrow> string" where
  "record_id j =
     (case j of
        JObj d \<Rightarrow> (case map_of d ''id'' of Some (JStr i) \<Rightarrow> i | _ \<Rightarrow> [])
      | _ \<Rightarrow> [])"

definition record_type :: "json \<Rightarrow> string" where
  "record_type j =
     (case j of
        JObj d \<Rightarrow> (case map_of d ''type'' of Some (JStr t) \<Rightarrow> t | _ \<Rightarrow> [])
      | _ \<Rightarrow> [])"

definition importable :: "json \<Rightarrow> bool" where
  "importable j =
     (case j of
        JObj d \<Rightarrow>
          record_id j \<noteq> [] \<and> plain (record_id j)
          \<and> map_of d ''id'' = Some (JStr (record_id j))
          \<and> record_type j \<in> set FEEDBACK_TYPES
          \<and> map_of d ''type'' = Some (JStr (record_type j))
      | _ \<Rightarrow> False)"

text \<open>
  A store can be exported and imported again when every file of the five partitions holds
  a record that \<^verbatim>\<open>import_feedback\<close> can place and that has a string (or nothing) as
  \<^verbatim>\<open>created_at\<close>.
\<close>

definition exportable_file :: "string \<times> content \<Rightarrow> bool" where
  "exportable_file e =
     (case snd e of Malformed \<Rightarrow> False | Doc j \<Rightarrow> importable j \<and> has_string_key j)"

definition exportable :: "partitions \<Rightarrow> bool" where
  "exportable dirs =
     list_all (\<lambda>t. case dirs t of None \<Rightarrow> True | Some files \<Rightarrow> list_all exportable_file files)
       FEEDBACK_TYPES"

text \<open>
  A file is proper for the partition \<open>t\<close> when it holds such a record, is named after the
  identifier and has \<open>t\<close> as its \<^verbatim>\<open>type\<close>. A store is consistent when every file of the five
  partitions is proper and no identifier occurs twice.
\<close>

definition proper_file :: "string \<Rightarrow> string \<times> content \<Rightarrow> bool" where
  "proper_file t e =
     (exportable_file e
      \<and> (case snd e of
           Malformed \<Rightarrow> False
         | Doc j \<Rightarrow> fst e = json_name (record_id j) \<and> record_type j = t))"

definition consistent :: "partitions \<Rightarrow> bool" where
  "consistent dirs =
     (list_all (\<lambda>t. case dirs t of None \<Rightarrow> True | Some files \<Rightarrow> list_all (proper_file t) files)
        FEEDBACK_TYPES
      \<and> distinct (map record_id (all_records dirs)))"

text \<open>
  A consistent store with 1001 records, all of them issues; the identifiers are
  \<^verbatim>\<open>r0\<close>, \<^verbatim>\<open>r1\<close> and so on, with the number written in unary digits of base 32.
\<close>

definition big_id :: "nat \<Rightarrow> string" where
  "big_id n = CHR ''r'' # replicate (n div 32) CHR ''x'' @ replicate (n mod 32) CHR ''i''"

definition big_record :: "nat \<Rightarrow> (string \<times> json) list" where
  "big_record n = example_rec (big_id n) ''issue'' ''new'' ''low'' [] ''2024-05-01T10:00:00''"

definition big_store :: store where
  "big_store = (empty_store example_dir)
     (example_dir @ [''issue''] \<mapsto>
        map (\<lambda>n. (json_name (big_id n), Doc (JObj (big_record n)))) [0..<1001])"

text \<open>
  A store with one record, in the partition \<^verbatim>\<open>issue\<close>, whose \<^verbatim>\<open>type\<close> is the path \<^verbatim>\<open>.\<close>
\<close>

definition rec_dot :: "(string \<times> json) list" where
  "rec_dot = example_rec ''d1'' ''.'' ''new'' ''low'' [] ''2024-05-01T10:00:00''"

definition dot_store :: store where
  "dot_store = (empty_store example_dir)
     (example_dir @ [''issue''] \<mapsto> [(''d1.json'', Doc (JObj rec_dot))])"

section \<open>Properties\<close>

subsection \<open>Paths\<close>

lemma split_acc_plain:
  "CHR ''/'' \<notin> set n \<Longrightarrow> split_acc acc n = (if acc @ n = [] then [] else [acc @ n])"
  by (induction n arbitrary: acc) auto

lemma split_path_plain: "CHR ''/'' \<notin> set n \<Longrightarrow> n \<noteq> [] \<Longrightarrow> split_path n = [n]"
  by (simp add: split_path_def split_acc_plain)

lemma json_name_plain:
  assumes "plain i"
  shows "split_path (json_name i) = [json_name i]" and "\<not> is_abs (json_name i)"
    and "CHR 0x00 \<notin> set (json_name i)"
proof -
  have "CHR ''/'' \<notin> set (json_name i)" using assms by (simp add: plain_def json_name_def)
  then show "split_path (json_name i) = [json_name i]"
    by (rule split_path_plain) (simp add: json_name_def)
  show "\<not> is_abs (json_name i)"
    using assms by (cases i) (auto simp: plain_def json_name_def is_abs_def)
  show "CHR 0x00 \<notin> set (json_name i)" using assms by (simp add: plain_def json_name_def)
qed

lemma type_component:
  assumes "t \<in> set FEEDBACK_TYPES"
  shows "split_path t = [t]" and "\<not> is_abs t" and "CHR 0x00 \<notin> set t"
    and "t \<noteq> ''.''" and "t \<noteq> ''..''"
  using assms by (auto simp: FEEDBACK_TYPES_def split_path_def is_abs_def)

text \<open>
  For a plain identifier and a type of the closed set the path is the file of that name
  in the partition.
\<close>

lemma locate_plain:
  assumes "plain i" and "t \<in> set FEEDBACK_TYPES"
    and "s feedback_dir \<noteq> None" and "s (feedback_dir @ [t]) \<noteq> None"
  shows "locate s feedback_dir t i = Some (feedback_dir @ [t], json_name i)"
  using assms(3,4)
  by (simp add: locate_def Let_def json_name_plain [OF assms(1)] type_component [OF assms(2)])

lemma partitions_existD:
  assumes "partitions_exist s feedback_dir"
  shows "s feedback_dir \<noteq> None" and "t \<in> set FEEDBACK_TYPES \<Longrightarrow> s (feedback_dir @ [t]) \<noteq> None"
  using assms by (auto simp: partitions_exist_def list_all_iff)

lemma locate_partition:
  assumes "partitions_exist s feedback_dir" and "plain i" and "t \<in> set FEEDBACK_TYPES"
  shows "locate s feedback_dir t i = Some (feedback_dir @ [t], json_name i)"
  using assms(2,3) partitions_existD [OF assms(1)] by (simp add: locate_plain)

text \<open>Resolution depends on which directories exist, not on the files in them.\<close>

lemma walk_same_dirs:
  "\<forall>p. (s' p = None) = (s p = None) \<Longrightarrow> walk s' cur cs = walk s cur cs"
  by (induction cs arbitrary: cur) simp_all

lemma locate_same_dirs:
  assumes "\<forall>p. (s' p = None) = (s p = None)"
  shows "locate s' feedback_dir t i = locate s feedback_dir t i"
proof -
  have "walk s' cur cs = walk s cur cs" for cur cs
    using assms by (rule walk_same_dirs)
  then show ?thesis by (simp add: locate_def Let_def)
qed

subsection \<open>Reading and writing files\<close>

lemma write_fileE:
  assumes "write_file s feedback_dir t i j = Some s'"
  obtains d n files where "locate s feedback_dir t i = Some (d, n)" and "s d = Some files"
    and "s (d @ [n]) = None" and "s' = s(d \<mapsto> AList.update n (Doc j) files)"
  using assms by (auto simp: write_file_def split: option.splits if_splits)

lemma write_same_dirs:
  assumes "write_file s feedback_dir t i j = Some s'"
  shows "\<forall>p. (s' p = None) = (s p = None)"
  using assms by (elim write_fileE) auto

text \<open>
  A write puts the record at the place of its path and leaves every other file, and the
  directories, as they were.
\<close>

lemma write_file_effect:
  assumes "write_file s feedback_dir t i j = Some s'"
  obtains d n where "locate s feedback_dir t i = Some (d, n)"
    and "file_at s' d n = Some (Doc j)"
    and "\<forall>d' n'. d' \<noteq> d \<or> n' \<noteq> n \<longrightarrow> file_at s' d' n' = file_at s d' n'"
    and "s (d @ [n]) = None"
proof -
  from assms obtain d n files where w: "locate s feedback_dir t i = Some (d, n)"
    "s d = Some files" "s (d @ [n]) = None" "s' = s(d \<mapsto> AList.update n (Doc j) files)"
    by (rule write_fileE)
  have "file_at s' d n = Some (Doc j)"
    by (simp add: file_at_def w(4) update_conv')
  moreover have "file_at s' d' n' = file_at s d' n'" if "d' \<noteq> d \<or> n' \<noteq> n" for d' n'
    using that by (cases "d' = d") (auto simp: file_at_def w(2,4) update_conv')
  ultimately show ?thesis using w(1,3) by (intro that) blast+
qed

lemma read_write_same:
  assumes "write_file s feedback_dir t i j = Some s'"
  shows "read_file s' feedback_dir t i = Some (Doc j)"
proof -
  from assms obtain d n where w: "locate s feedback_dir t i = Some (d, n)"
    "file_at s' d n = Some (Doc j)"
    by (rule write_file_effect)
  have "locate s' feedback_dir t i = Some (d, n)"
    using w(1) locate_same_dirs [OF write_same_dirs [OF assms]] by simp
  then show ?thesis using w(2) by (simp add: read_file_def)
qed

lemma read_write_other:
  assumes "write_file s feedback_dir t i j = Some s'"
    and "locate s feedback_dir t' i' \<noteq> locate s feedback_dir t i"
  shows "read_file s' feedback_dir t' i' = read_file s feedback_dir t' i'"
proof -
  from assms(1) obtain d n where w: "locate s feedback_dir t i = Some (d, n)"
    "\<forall>d' n'. d' \<noteq> d \<or> n' \<noteq> n \<longrightarrow> file_at s' d' n' = file_at s d' n'"
    by (rule write_file_effect)
  note dirs = write_same_dirs [OF assms(1)]
  have l: "locate s' feedback_dir t' i' = locate s feedback_dir t' i'"
    using locate_same_dirs [OF dirs] by simp
  show ?thesis
  proof (cases "locate s feedback_dir t' i'")
    case None
    then show ?thesis using l by (simp add: read_file_def)
  next
    case (Some loc)
    obtain d' n' where loc: "loc = (d', n')" by (cases loc)
    have "d' \<noteq> d \<or> n' \<noteq> n" using assms(2) Some w(1) loc by auto
    then have "file_at s' d' n' = file_at s d' n'" using w(2) by blast
    moreover have "(s' (d' @ [n']) = None) = (s (d' @ [n']) = None)" using dirs by blast
    ultimately show ?thesis using l Some loc by (auto simp: read_file_def)
  qed
qed

lemma read_file_partition:
  assumes "partitions_exist s feedback_dir" and "plain i" and "t \<in> set FEEDBACK_TYPES"
  shows "read_file s feedback_dir t i =
      (case file_at s (feedback_dir @ [t]) (json_name i) of
         Some c \<Rightarrow> Some c
       | None \<Rightarrow> if s (feedback_dir @ [t, json_name i]) = None then None else Some Malformed)"
  by (auto simp: read_file_def locate_partition [OF assms])

lemma write_file_partition:
  assumes "partitions_exist s feedback_dir" and "plain i" and "t \<in> set FEEDBACK_TYPES"
    and "s (feedback_dir @ [t, json_name i]) = None"
  obtains files where "s (feedback_dir @ [t]) = Some files"
    and "write_file s feedback_dir t i j =
           Some (s(feedback_dir @ [t] \<mapsto> AList.update (json_name i) (Doc j) files))"
proof -
  obtain files where f: "s (feedback_dir @ [t]) = Some files"
    using partitions_existD(2) [OF assms(1,3)] by blast
  then show ?thesis
    using assms(4) by (intro that) (simp_all add: write_file_def locate_partition [OF assms(1-3)])
qed

lemma locate_types_differ:
  assumes "partitions_exist s feedback_dir" and "plain i"
    and "t \<in> set FEEDBACK_TYPES" and "u \<in> set FEEDBACK_TYPES" and "u \<noteq> t"
  shows "locate s feedback_dir u i \<noteq> locate s feedback_dir t i"
  using assms(5)
  by (simp add: locate_partition [OF assms(1,2,3)] locate_partition [OF assms(1,2,4)])

lemma partitions_exist_write:
  assumes "write_file s feedback_dir' t i j = Some s'" and "partitions_exist s feedback_dir"
  shows "partitions_exist s' feedback_dir"
  using assms(2) write_same_dirs [OF assms(1)] by (simp add: partitions_exist_def)

lemma stored_nowhereD:
  "stored_nowhere s feedback_dir feedback_id \<Longrightarrow> t \<in> set FEEDBACK_TYPES \<Longrightarrow>
   read_file s feedback_dir t feedback_id = None"
  by (simp add: stored_nowhere_def list_all_iff)

lemma stored_only_inD:
  "stored_only_in s feedback_dir feedback_id t \<Longrightarrow> u \<in> set FEEDBACK_TYPES \<Longrightarrow> u \<noteq> t \<Longrightarrow>
   read_file s feedback_dir u feedback_id = None"
  by (auto simp: stored_only_in_def list_all_iff)

lemma no_directory_where_nothing:
  assumes "partitions_exist s feedback_dir" and "plain i" and "t \<in> set FEEDBACK_TYPES"
    and "read_file s feedback_dir t i = None"
  shows "s (feedback_dir @ [t, json_name i]) = None"
  using assms(4) unfolding read_file_partition [OF assms(1-3)]
  by (auto split: option.splits if_splits)

subsection \<open>The example store\<close>

lemma empty_store_simps:
  "t \<in> set FEEDBACK_TYPES \<Longrightarrow> empty_store feedback_dir (feedback_dir @ [t]) = Some []"
  "empty_store feedback_dir feedback_dir = Some []"
  "empty_store feedback_dir (feedback_dir @ [t, n]) = None"
  by (auto simp: empty_store_def list_ex_iff)

lemma partitions_exist_empty: "partitions_exist (empty_store feedback_dir) feedback_dir"
  by (simp add: partitions_exist_def list_all_iff empty_store_simps)

lemma example_store_simps:
  "example_store (example_dir @ [''issue'']) = Some [(''a1.json'', Doc (JObj example_record))]"
  "example_store (example_dir @ [''improvement'']) = Some []"
  "example_store (example_dir @ [''question'']) = Some []"
  "example_store (example_dir @ [''compliance'']) = Some []"
  "example_store (example_dir @ [''other'']) = Some []"
  "example_store example_dir = Some []"
  "example_store (example_dir @ [t, n]) = None"
  by (simp_all add: example_store_def empty_store_simps FEEDBACK_TYPES_def)

lemma partitions_exist_example: "partitions_exist example_store example_dir"
  by (simp add: partitions_exist_def FEEDBACK_TYPES_def example_store_simps)

lemma plain_examples: "plain ''zz''" "plain ''b2''" "plain ''a1''"
  by (simp_all add: plain_def)

lemma example_reads:
  "read_file example_store example_dir ''issue'' ''a1'' = Some (Doc (JObj example_record))"
  "read_file example_store example_dir ''improvement'' ''a1'' = None"
  "read_file example_store example_dir ''question'' ''a1'' = None"
  "read_file example_store example_dir ''compliance'' ''a1'' = None"
  "read_file example_store example_dir ''other'' ''a1'' = None"
  by (simp_all add: read_file_partition [OF partitions_exist_example plain_examples(3)]
      FEEDBACK_TYPES_def file_at_def example_store_simps json_name_def)

lemma stored_nowhere_example:
  "plain i \<Longrightarrow> i \<noteq> ''a1'' \<Longrightarrow> stored_nowhere example_store example_dir i"
  by (simp add: stored_nowhere_def list_all_iff
      read_file_partition [OF partitions_exist_example] file_at_def)
    (auto simp: FEEDBACK_TYPES_def example_store_simps json_name_def)

subsection \<open>Lookup by identifier\<close>


text \<open>The first partition in which the path exists decides what \<^verbatim>\<open>get_feedback\<close> returns.\<close>

lemma get_feedback_in_first:
  "t \<in> set ts \<Longrightarrow> read_file s feedback_dir t feedback_id = Some (Doc j) \<Longrightarrow>
   \<forall>u \<in> set (takeWhile (\<lambda>u. u \<noteq> t) ts). read_file s feedback_dir u feedback_id = None \<Longrightarrow>
   get_feedback_in s feedback_dir ts feedback_id = j"
proof (induction ts)
  case Nil
  then show ?case by simp
next
  case (Cons a ts)
  show ?case
  proof (cases "a = t")
    case True
    then show ?thesis using Cons.prems(2) by simp
  next
    case False
    then have none: "read_file s feedback_dir a feedback_id = None"
      using Cons.prems(3) by simp
    have "t \<in> set ts" using Cons.prems(1) False by simp
    moreover have "\<forall>u \<in> set (takeWhile (\<lambda>u. u \<noteq> t) ts).
        read_file s feedback_dir u feedback_id = None"
      using Cons.prems(3) False by simp
    ultimately have "get_feedback_in s feedback_dir ts feedback_id = j"
      using Cons.IH Cons.prems(2) by blast
    then show ?thesis using none by simp
  qed
qed

lemma get_feedback_after_write:
  assumes w: "write_file s feedback_dir t feedback_id j = Some s'"
    and t: "t \<in> set FEEDBACK_TYPES"
    and fresh: "stored_nowhere s feedback_dir feedback_id"
    and parts: "partitions_exist s feedback_dir"
    and pl: "plain feedback_id"
  shows "get_feedback s' feedback_dir feedback_id = j"
proof -
  have "read_file s' feedback_dir t feedback_id = Some (Doc j)"
    using w by (rule read_write_same)
  moreover have "\<forall>u \<in> set (takeWhile (\<lambda>u. u \<noteq> t) FEEDBACK_TYPES).
      read_file s' feedback_dir u feedback_id = None"
  proof
    fix u assume u: "u \<in> set (takeWhile (\<lambda>u. u \<noteq> t) FEEDBACK_TYPES)"
    then have ut: "u \<noteq> t" and uin: "u \<in> set FEEDBACK_TYPES" by (auto dest: set_takeWhileD)
    have "read_file s' feedback_dir u feedback_id = read_file s feedback_dir u feedback_id"
      using w locate_types_differ [OF parts pl t uin ut] by (rule read_write_other)
    then show "read_file s' feedback_dir u feedback_id = None"
      using stored_nowhereD [OF fresh uin] by simp
  qed
  ultimately show ?thesis
    unfolding get_feedback_def using t by (rule get_feedback_in_first [rotated])
qed

lemma before_trans:
  "a \<in> set (takeWhile (\<lambda>t. t \<noteq> b) xs) \<Longrightarrow> u \<in> set (takeWhile (\<lambda>t. t \<noteq> a) xs) \<Longrightarrow>
   u \<in> set (takeWhile (\<lambda>t. t \<noteq> b) xs)"
  by (induction xs) (auto split: if_splits)

subsection \<open>update on an identifier that is not stored\<close>



subsection \<open>submit\<close>

lemma coerced_type_valid:
  "(if t \<notin> set FEEDBACK_TYPES then ''other'' else t) \<in> set FEEDBACK_TYPES"
  by (simp add: FEEDBACK_TYPES_def)

text \<open>
  C3. The store has its partitions, the new identifier is plain, as the string of a UUID
  is, and no directory has the name of the new file. Then \<^verbatim>\<open>submit_feedback\<close> returns the
  new identifier whatever \<open>feedback_type\<close> and \<open>priority\<close> are, and the record it stored has
  the given type when that is one of the five and \<^verbatim>\<open>other\<close> otherwise, and the given priority
  when that is one of the four and \<^verbatim>\<open>medium\<close> otherwise.
\<close>

theorem submit_coerces_invalid_enums:
  assumes "partitions_exist s feedback_dir"
    and "plain uuid"
    and "no_directory_named s feedback_dir uuid"
  shows "\<exists>s' d. submit_feedback s feedback_dir uuid now1 now2 feedback_type title description
              priority tags context = (uuid, s')
          \<and> read_file s' feedback_dir
              (if feedback_type \<in> set FEEDBACK_TYPES then feedback_type else ''other'') uuid
              = Some (Doc (JObj d))
          \<and> map_of d ''type'' =
              Some (JStr (if feedback_type \<in> set FEEDBACK_TYPES then feedback_type else ''other''))
          \<and> map_of d ''priority'' =
              Some (JStr (if priority \<in> set FEEDBACK_PRIORITIES then priority else ''medium''))"
proof -
  define t where "t = (if feedback_type \<in> set FEEDBACK_TYPES then feedback_type else ''other'')"
  define p where "p = (if priority \<in> set FEEDBACK_PRIORITIES then priority else ''medium'')"
  let ?d = "[(''id'', JStr uuid),
             (''type'', JStr t),
             (''title'', JStr title),
             (''description'', JStr description),
             (''priority'', JStr p),
             (''tags'', JList (map JStr (case tags of None \<Rightarrow> [] | Some ts \<Rightarrow> ts))),
             (''context'', JObj (case context of None \<Rightarrow> [] | Some c \<Rightarrow> c)),
             (''status'', JStr ''new''),
             (''created_at'', JStr now1),
             (''updated_at'', JStr now2),
             (''comments'', JList [])]"
  have t_alt: "(if feedback_type \<notin> set FEEDBACK_TYPES then ''other'' else feedback_type) = t"
    and p_alt: "(if priority \<notin> set FEEDBACK_PRIORITIES then ''medium'' else priority) = p"
    by (simp_all add: t_def p_def)
  have t: "t \<in> set FEEDBACK_TYPES" using coerced_type_valid [of feedback_type] t_alt by simp
  have "s (feedback_dir @ [t, json_name uuid]) = None"
    using assms(3) t unfolding no_directory_named_def list_all_iff by blast
  with assms(1,2) t obtain s' where w: "write_file s feedback_dir t uuid (JObj ?d) = Some s'"
    by (rule write_file_partition)
  have sub: "submit_feedback s feedback_dir uuid now1 now2 feedback_type title description
      priority tags context = (uuid, s')"
    unfolding submit_feedback_def Let_def t_alt p_alt by (simp add: w)
  have r: "read_file s' feedback_dir t uuid = Some (Doc (JObj ?d))"
    using w by (rule read_write_same)
  have ty: "map_of ?d ''type'' = Some (JStr t)" by simp
  have pr: "map_of ?d ''priority'' = Some (JStr p)" by simp
  show ?thesis
    unfolding t_def [symmetric] p_def [symmetric]
    by (rule exI [where x = s'], rule exI [where x = ?d]) (intro conjI sub r ty pr)
qed

lemma no_directory_example: "no_directory_named example_store example_dir i"
  by (simp add: no_directory_named_def list_all_iff example_store_simps)

theorem submit_coerces_invalid_enums_witness:
  "partitions_exist example_store example_dir
   \<and> plain ''b2''
   \<and> no_directory_named example_store example_dir ''b2''
   \<and> (\<exists>s' d. submit_feedback example_store example_dir ''b2'' ''2024-06-02T08:00:00''
              ''2024-06-02T08:00:01'' ''bogus'' ''Title'' ''Text'' ''urgent'' None None
              = (''b2'', s')
          \<and> read_file s' example_dir ''other'' ''b2'' = Some (Doc (JObj d))
          \<and> map_of d ''type'' = Some (JStr ''other'')
          \<and> map_of d ''priority'' = Some (JStr ''medium''))"
proof -
  have bogus: "''bogus'' \<notin> set FEEDBACK_TYPES" "''urgent'' \<notin> set FEEDBACK_PRIORITIES"
    by (simp_all add: FEEDBACK_TYPES_def FEEDBACK_PRIORITIES_def)
  show ?thesis
    using partitions_exist_example plain_examples(2) no_directory_example [of "''b2''"]
      submit_coerces_invalid_enums [OF partitions_exist_example plain_examples(2)
        no_directory_example, of "''2024-06-02T08:00:00''" "''2024-06-02T08:00:01''"
        "''bogus''" "''Title''" "''Text''" "''urgent''" None None]
    by (simp add: bogus)
qed

text \<open>
  C5. For a valid type and priority, in a store that has its partitions and nothing at the
  path of the new identifier, which is plain, \<^verbatim>\<open>submit_feedback\<close> returns the identifier and
  \<^verbatim>\<open>get_feedback\<close> of it yields a record with the submitted title, description, tags and
  context (an omitted \<open>tags\<close> is the empty list, an omitted \<open>context\<close> the empty dict),
  status \<^verbatim>\<open>new\<close> and no comments.
\<close>

theorem submit_then_get:
  assumes "partitions_exist s feedback_dir"
    and "feedback_type \<in> set FEEDBACK_TYPES"
    and "priority \<in> set FEEDBACK_PRIORITIES"
    and "stored_nowhere s feedback_dir uuid"
    and "plain uuid"
  shows "\<exists>s' d. submit_feedback s feedback_dir uuid now1 now2 feedback_type title description
              priority tags context = (uuid, s')
          \<and> get_feedback s' feedback_dir uuid = JObj d
          \<and> map_of d ''title'' = Some (JStr title)
          \<and> map_of d ''description'' = Some (JStr description)
          \<and> map_of d ''tags'' = Some (JList (map JStr (case tags of None \<Rightarrow> [] | Some ts \<Rightarrow> ts)))
          \<and> map_of d ''context'' = Some (JObj (case context of None \<Rightarrow> [] | Some c \<Rightarrow> c))
          \<and> map_of d ''status'' = Some (JStr ''new'')
          \<and> map_of d ''comments'' = Some (JList [])"
proof -
  let ?d = "[(''id'', JStr uuid),
             (''type'', JStr feedback_type),
             (''title'', JStr title),
             (''description'', JStr description),
             (''priority'', JStr priority),
             (''tags'', JList (map JStr (case tags of None \<Rightarrow> [] | Some ts \<Rightarrow> ts))),
             (''context'', JObj (case context of None \<Rightarrow> [] | Some c \<Rightarrow> c)),
             (''status'', JStr ''new''),
             (''created_at'', JStr now1),
             (''updated_at'', JStr now2),
             (''comments'', JList [])]"
  have "s (feedback_dir @ [feedback_type, json_name uuid]) = None"
    using assms(1,5,2) stored_nowhereD [OF assms(4,2)] by (rule no_directory_where_nothing)
  with assms(1,5,2) obtain s' where
    w: "write_file s feedback_dir feedback_type uuid (JObj ?d) = Some s'"
    by (rule write_file_partition)
  have sub: "submit_feedback s feedback_dir uuid now1 now2 feedback_type title description
      priority tags context = (uuid, s')"
    using w assms(2,3) by (simp add: submit_feedback_def Let_def)
  have "get_feedback s' feedback_dir uuid = JObj ?d"
    using w assms(2,4,1,5) by (rule get_feedback_after_write)
  with sub show ?thesis by simp
qed

theorem submit_then_get_witness:
  "partitions_exist example_store example_dir
   \<and> ''question'' \<in> set FEEDBACK_TYPES
   \<and> ''low'' \<in> set FEEDBACK_PRIORITIES
   \<and> stored_nowhere example_store example_dir ''b2''
   \<and> plain ''b2''
   \<and> (\<exists>s' d. submit_feedback example_store example_dir ''b2'' ''2024-06-02T08:00:00''
              ''2024-06-02T08:00:01'' ''question'' ''How to?'' ''Please explain'' ''low''
              (Some [''docs'']) (Some [(''page'', JInt 3)]) = (''b2'', s')
          \<and> get_feedback s' example_dir ''b2'' = JObj d
          \<and> map_of d ''title'' = Some (JStr ''How to?'')
          \<and> map_of d ''description'' = Some (JStr ''Please explain'')
          \<and> map_of d ''tags'' = Some (JList [JStr ''docs''])
          \<and> map_of d ''context'' = Some (JObj [(''page'', JInt 3)])
          \<and> map_of d ''status'' = Some (JStr ''new'')
          \<and> map_of d ''comments'' = Some (JList []))"
proof -
  have h2: "''question'' \<in> set FEEDBACK_TYPES" by (simp add: FEEDBACK_TYPES_def)
  have h3: "''low'' \<in> set FEEDBACK_PRIORITIES" by (simp add: FEEDBACK_PRIORITIES_def)
  have h4: "stored_nowhere example_store example_dir ''b2''"
    by (rule stored_nowhere_example) (simp_all add: plain_examples)
  show ?thesis
    using partitions_exist_example h2 h3 h4 plain_examples(2)
      submit_then_get [OF partitions_exist_example h2 h3 h4 plain_examples(2),
        of "''2024-06-02T08:00:00''" "''2024-06-02T08:00:01''" "''How to?''"
        "''Please explain''" "Some [''docs'']" "Some [(''page'', JInt 3)]"]
    by simp
qed

subsection \<open>update\<close>

lemma map_of_foldl_apply_update:
  "map_of (foldl apply_update d updates) k =
     (if k \<in> {''id'', ''created_at''} then map_of d k
      else case map_of (rev updates) k of None \<Rightarrow> map_of d k | Some v \<Rightarrow> Some v)"
proof (induction updates rule: rev_induct)
  case Nil
  then show ?case by simp
next
  case (snoc kv updates)
  then show ?case
    by (cases kv) (auto simp: apply_update_def update_conv')
qed

lemma map_of_rev_distinct: "distinct (map fst xs) \<Longrightarrow> map_of (rev xs) = map_of xs"
  by (rule map_of_inject_set [THEN iffD2]) (simp_all add: rev_map [symmetric])

lemma map_of_updated_record:
  assumes "distinct (map fst updates)"
  shows "map_of (AList.update ''updated_at'' (JStr now) (foldl apply_update d updates)) k =
      (if k = ''updated_at'' then Some (JStr now)
       else if k \<in> {''id'', ''created_at''} then map_of d k
       else case map_of updates k of None \<Rightarrow> map_of d k | Some v \<Rightarrow> Some v)"
  by (simp add: update_conv' map_of_foldl_apply_update map_of_rev_distinct [OF assms])









text \<open>
  An identifier that is a path is followed as the file system follows it: \<^verbatim>\<open>../issue/a1\<close>
  leads from every partition to the file of the record \<^verbatim>\<open>a1\<close>, and an update under that
  identifier rewrites this record.
\<close>

lemma path_identifier_reaches_record:
  "read_file example_store example_dir ''question'' ''../issue/a1''
     = Some (Doc (JObj example_record))"
  "get_feedback example_store example_dir ''../issue/a1'' = JObj example_record"
  "\<not> stored_nowhere example_store example_dir ''../issue/a1''"
  by code_simp+

text \<open>
  C10. The store has its partitions. A record with a plain identifier is stored in the
  partition \<open>t_old\<close> of its type and nothing is at its path in any other partition, and the
  payload sets \<^verbatim>\<open>"type"\<close> to another valid type \<open>t_new\<close>. Then \<^verbatim>\<open>update_feedback\<close> succeeds,
  the file in \<open>t_old\<close> is still the record as it was, the partition \<open>t_new\<close> holds the
  updated record under the same identifier, and \<^verbatim>\<open>get_feedback\<close> returns the copy of the
  partition that is searched first: the old record when \<open>t_old\<close> comes before \<open>t_new\<close>.
\<close>

theorem update_type_leaves_stale_copy:
  assumes parts: "partitions_exist s feedback_dir"
    and pl: "plain feedback_id"
    and t_old: "t_old \<in> set FEEDBACK_TYPES"
    and stored: "read_file s feedback_dir t_old feedback_id = Some (Doc (JObj d))"
    and only: "stored_only_in s feedback_dir feedback_id t_old"
    and stored_type: "map_of d ''type'' = Some (JStr t_old)"
    and dist: "distinct (map fst updates)"
    and new_type: "map_of updates ''type'' = Some (JStr t_new)"
    and t_new: "t_new \<in> set FEEDBACK_TYPES"
    and differ: "t_new \<noteq> t_old"
  shows "\<exists>s' d'. update_feedback s feedback_dir now feedback_id updates = Inr (True, s')
          \<and> read_file s' feedback_dir t_old feedback_id = Some (Doc (JObj d))
          \<and> read_file s' feedback_dir t_new feedback_id = Some (Doc (JObj d'))
          \<and> map_of d' ''id'' = map_of d ''id''
          \<and> map_of d' ''type'' = Some (JStr t_new)
          \<and> map_of d' ''updated_at'' = Some (JStr now)
          \<and> get_feedback s' feedback_dir feedback_id =
              (if searched_before t_old t_new then JObj d else JObj d')"
proof -
  let ?d' = "AList.update ''updated_at'' (JStr now) (foldl apply_update d updates)"
  note m = map_of_updated_record [OF dist, of now d]
  have before_old:
    "\<forall>u \<in> set (takeWhile (\<lambda>u. u \<noteq> t_old) FEEDBACK_TYPES).
       read_file s feedback_dir u feedback_id = None"
    using stored_only_inD [OF only] by (auto dest: set_takeWhileD)
  have g: "get_feedback s feedback_dir feedback_id = JObj d"
    unfolding get_feedback_def using t_old stored before_old by (rule get_feedback_in_first)
  have nonempty: "d \<noteq> []" using stored_type by auto
  have ty: "map_of ?d' ''type'' = Some (JStr t_new)"
    using new_type by (simp add: m)
  have "s (feedback_dir @ [t_new, json_name feedback_id]) = None"
    using parts pl t_new stored_only_inD [OF only t_new differ]
    by (rule no_directory_where_nothing)
  with parts pl t_new obtain s' where
    w: "write_file s feedback_dir t_new feedback_id (JObj ?d') = Some s'"
    by (rule write_file_partition)
  have upd: "update_feedback s feedback_dir now feedback_id updates = Inr (True, s')"
    using g nonempty ty w by (simp add: update_feedback_def Let_def)
  have other: "read_file s' feedback_dir u feedback_id = read_file s feedback_dir u feedback_id"
    if "u \<in> set FEEDBACK_TYPES" "u \<noteq> t_new" for u
    using w locate_types_differ [OF parts pl t_new that] by (rule read_write_other)
  have r_old: "read_file s' feedback_dir t_old feedback_id = Some (Doc (JObj d))"
    using other [OF t_old] differ stored by simp
  have r_new: "read_file s' feedback_dir t_new feedback_id = Some (Doc (JObj ?d'))"
    using w by (rule read_write_same)
  have r_other: "read_file s' feedback_dir u feedback_id = None"
    if "u \<in> set FEEDBACK_TYPES" "u \<noteq> t_old" "u \<noteq> t_new" for u
    using other [OF that(1,3)] stored_only_inD [OF only that(1,2)] by simp
  have get': "get_feedback s' feedback_dir feedback_id =
      (if searched_before t_old t_new then JObj d else JObj ?d')"
  proof (cases "searched_before t_old t_new")
    case True
    have "\<forall>u \<in> set (takeWhile (\<lambda>u. u \<noteq> t_old) FEEDBACK_TYPES).
        read_file s' feedback_dir u feedback_id = None"
    proof
      fix u assume u: "u \<in> set (takeWhile (\<lambda>u. u \<noteq> t_old) FEEDBACK_TYPES)"
      then have "u \<in> set (takeWhile (\<lambda>u. u \<noteq> t_new) FEEDBACK_TYPES)"
        using True before_trans unfolding searched_before_def by fast
      then have "u \<noteq> t_new" by (auto dest: set_takeWhileD)
      moreover have "u \<noteq> t_old" "u \<in> set FEEDBACK_TYPES"
        using u by (auto dest: set_takeWhileD)
      ultimately show "read_file s' feedback_dir u feedback_id = None" using r_other by blast
    qed
    with t_old r_old have "get_feedback_in s' feedback_dir FEEDBACK_TYPES feedback_id = JObj d"
      by (rule get_feedback_in_first)
    with True show ?thesis by (simp add: get_feedback_def)
  next
    case False
    have "\<forall>u \<in> set (takeWhile (\<lambda>u. u \<noteq> t_new) FEEDBACK_TYPES).
        read_file s' feedback_dir u feedback_id = None"
    proof
      fix u assume u: "u \<in> set (takeWhile (\<lambda>u. u \<noteq> t_new) FEEDBACK_TYPES)"
      then have "u \<noteq> t_old" using False unfolding searched_before_def by auto
      moreover have "u \<noteq> t_new" "u \<in> set FEEDBACK_TYPES"
        using u by (auto dest: set_takeWhileD)
      ultimately show "read_file s' feedback_dir u feedback_id = None" using r_other by blast
    qed
    with t_new r_new have
      "get_feedback_in s' feedback_dir FEEDBACK_TYPES feedback_id = JObj ?d'"
      by (rule get_feedback_in_first)
    with False show ?thesis by (simp add: get_feedback_def)
  qed
  have "map_of ?d' ''id'' = map_of d ''id''" by (simp add: m)
  moreover have "map_of ?d' ''updated_at'' = Some (JStr now)" by (simp add: m)
  ultimately show ?thesis using upd r_old r_new ty get' by blast
qed

theorem update_type_leaves_stale_copy_witness:
  "partitions_exist example_store example_dir
   \<and> plain ''a1''
   \<and> ''issue'' \<in> set FEEDBACK_TYPES
   \<and> read_file example_store example_dir ''issue'' ''a1'' = Some (Doc (JObj example_record))
   \<and> stored_only_in example_store example_dir ''a1'' ''issue''
   \<and> map_of example_record ''type'' = Some (JStr ''issue'')
   \<and> distinct (map fst example_retype)
   \<and> map_of example_retype ''type'' = Some (JStr ''question'')
   \<and> ''question'' \<in> set FEEDBACK_TYPES
   \<and> ''question'' \<noteq> ''issue''
   \<and> searched_before ''issue'' ''question''
   \<and> (\<exists>s' d'. update_feedback example_store example_dir ''2024-06-01T09:00:00'' ''a1''
                 example_retype = Inr (True, s')
          \<and> read_file s' example_dir ''issue'' ''a1'' = Some (Doc (JObj example_record))
          \<and> read_file s' example_dir ''question'' ''a1'' = Some (Doc (JObj d'))
          \<and> map_of d' ''id'' = map_of example_record ''id''
          \<and> map_of d' ''type'' = Some (JStr ''question'')
          \<and> map_of d' ''updated_at'' = Some (JStr ''2024-06-01T09:00:00'')
          \<and> get_feedback s' example_dir ''a1'' = JObj example_record)"
proof -
  have h2: "''issue'' \<in> set FEEDBACK_TYPES" and h8: "''question'' \<in> set FEEDBACK_TYPES"
    by (simp_all add: FEEDBACK_TYPES_def)
  note h3 = example_reads(1)
  have h4: "stored_only_in example_store example_dir ''a1'' ''issue''"
    by (simp add: stored_only_in_def FEEDBACK_TYPES_def example_reads)
  have h5: "map_of example_record ''type'' = Some (JStr ''issue'')"
    by (simp add: example_record_def)
  have h6: "distinct (map fst example_retype)"
    and h7: "map_of example_retype ''type'' = Some (JStr ''question'')"
    by (simp_all add: example_retype_def)
  have h9: "''question'' \<noteq> ''issue''" by simp
  have first: "searched_before ''issue'' ''question''"
    by (simp add: searched_before_def FEEDBACK_TYPES_def)
  show ?thesis
    using partitions_exist_example plain_examples(3) h2 h3 h4 h5 h6 h7 h8 h9 first
      update_type_leaves_stale_copy [OF partitions_exist_example plain_examples(3) h2 h3 h4 h5
        h6 h7 h8 h9, of "''2024-06-01T09:00:00''"]
    by simp
qed

subsection \<open>stats\<close>

lemma array_status_partitions:
  "partition array_status_store example_dir ''issue''
     = Some [(''s1.json'', Doc (JObj rec_array_status))]"
  "partition array_status_store example_dir ''improvement'' = Some []"
  "partition array_status_store example_dir ''question'' = Some []"
  "partition array_status_store example_dir ''compliance'' = Some []"
  "partition array_status_store example_dir ''other'' = Some []"
  by (simp_all add: partition_def array_status_store_def empty_store_simps FEEDBACK_TYPES_def)

text \<open>
  C8 fails on the code. The store holds one record, with the priority \<^verbatim>\<open>low\<close>, which is in
  the closed set, and with an array as status. \<^verbatim>\<open>get_feedback_stats\<close> counts the record in
  \<open>total\<close> and under its type; the test \<^verbatim>\<open>status in stats["by_status"]\<close> then raises
  \<^verbatim>\<open>TypeError\<close>, for an array cannot be hashed, the \<^verbatim>\<open>except\<close> clause ends the work on the
  record, and its priority is counted nowhere: the counter of \<^verbatim>\<open>low\<close> is zero.
\<close>

theorem stats_drops_priority_after_array_status:
  "dict_get rec_array_status ''priority'' (JStr ''medium'') = JStr ''low''
   \<and> ''low'' \<in> set FEEDBACK_PRIORITIES
   \<and> get_feedback_stats array_status_store example_dir =
       \<lparr>total = 1,
        by_type = [(''issue'', 1), (''improvement'', 0), (''question'', 0),
                   (''compliance'', 0), (''other'', 0)],
        by_status = [(''new'', 0), (''acknowledged'', 0), (''in_progress'', 0),
                     (''resolved'', 0), (''closed'', 0), (''rejected'', 0)],
        by_priority = [(''low'', 0), (''medium'', 0), (''high'', 0), (''critical'', 0)]\<rparr>"
proof -
  have "dict_get rec_array_status ''priority'' (JStr ''medium'') = JStr ''low''"
    by (simp add: rec_array_status_def dict_get_def)
  moreover have "''low'' \<in> set FEEDBACK_PRIORITIES" by (simp add: FEEDBACK_PRIORITIES_def)
  moreover have "get_feedback_stats array_status_store example_dir =
       \<lparr>total = 1,
        by_type = [(''issue'', 1), (''improvement'', 0), (''question'', 0),
                   (''compliance'', 0), (''other'', 0)],
        by_status = [(''new'', 0), (''acknowledged'', 0), (''in_progress'', 0),
                     (''resolved'', 0), (''closed'', 0), (''rejected'', 0)],
        by_priority = [(''low'', 0), (''medium'', 0), (''high'', 0), (''critical'', 0)]\<rparr>"
    by (simp add: get_feedback_stats_def FEEDBACK_TYPES_def FEEDBACK_STATUSES_def
        FEEDBACK_PRIORITIES_def zero_counters_def array_status_partitions endswith_def
        count_file_def py_get_def dict_get_def rec_array_status_def in_counters_def)
  ultimately show ?thesis by simp
qed

subsection \<open>cleanup\<close>

lemma edge_partitions:
  "partition edge_store example_dir ''issue'' = Some [(''edge.json'', Doc (JObj rec_edge))]"
  "partition edge_store example_dir ''improvement'' = Some []"
  "partition edge_store example_dir ''question'' = Some []"
  "partition edge_store example_dir ''compliance'' = Some []"
  "partition edge_store example_dir ''other'' = Some []"
  by (simp_all add: partition_def edge_store_def empty_store_simps FEEDBACK_TYPES_def)

lemma edge_record_due:
  assumes "fromisoformat ''2024-01-01T00:00:00'' = Some cutoff"
    and "\<not> float_gt cutoff cutoff"
  shows "old_enough fromisoformat float_gt cutoff None (Doc (JObj rec_edge))"
  using assms
  by (simp add: old_enough_def rec_edge_def example_rec_def dict_get_def status_selected_def)

text \<open>
  C2 fails on the code, which does not do what the documentation of
  \<^verbatim>\<open>cleanup_old_feedback\<close> says, "Remove feedback older than this many days". The clock
  reads \<open>now\<close>, and the record of the store was created exactly 30 days before: its time
  stamp is the cutoff that the subtraction yields. No float is greater than itself, so the
  test \<^verbatim>\<open>created_timestamp > cutoff_date\<close> does not keep the record:
  \<^verbatim>\<open>cleanup_old_feedback\<close> with \<^verbatim>\<open>days=30\<close> returns 1 and the file is gone, although the record
  is not older than 30 days.
\<close>

theorem cleanup_removes_record_at_cutoff:
  assumes "float_of_int 2592000 = Some seconds"
    and "float_sub now seconds = cutoff"
    and "fromisoformat ''2024-01-01T00:00:00'' = Some cutoff"
    and "\<not> float_gt cutoff cutoff"
  shows "\<exists>s'. cleanup_old_feedback fromisoformat float_of_int float_sub float_gt edge_store
                 example_dir now 30 None = Inr (1, s')
          \<and> file_at edge_store (example_dir @ [''issue'']) ''edge.json''
              = Some (Doc (JObj rec_edge))
          \<and> file_at s' (example_dir @ [''issue'']) ''edge.json'' = None"
proof -
  have due: "old_enough fromisoformat float_gt cutoff None (Doc (JObj rec_edge))"
    using assms(3,4) by (rule edge_record_due)
  have issue: "cleanup_dirs fromisoformat float_gt cutoff None example_dir
      (''issue'' # rest) (edge_store, 0)
      = cleanup_dirs fromisoformat float_gt cutoff None example_dir rest
          (edge_store(example_dir @ [''issue''] \<mapsto> []), 1)" for rest
    by (simp add: edge_partitions due endswith_def)
  have other: "cleanup_dirs fromisoformat float_gt cutoff None example_dir (t # rest) (s, n)
      = cleanup_dirs fromisoformat float_gt cutoff None example_dir rest (s, n)"
    if "s (example_dir @ [t]) = Some []" for t rest s n
  proof -
    have "s(example_dir @ [t] \<mapsto> []) = s" using that by (rule fun_upd_idem)
    then show ?thesis using that by (simp add: partition_def)
  qed
  let ?s = "edge_store(example_dir @ [''issue''] \<mapsto> [])"
  have empties: "?s (example_dir @ [''improvement'']) = Some []"
    "?s (example_dir @ [''question'']) = Some []"
    "?s (example_dir @ [''compliance'']) = Some []"
    "?s (example_dir @ [''other'']) = Some []"
    using edge_partitions by (simp_all add: partition_def)
  have "cleanup_dirs fromisoformat float_gt cutoff None example_dir FEEDBACK_TYPES
      (edge_store, 0) = (?s, 1)"
    unfolding FEEDBACK_TYPES_def issue
      other [where s = ?s and t = "''improvement''", OF empties(1)]
      other [where s = ?s and t = "''question''", OF empties(2)]
      other [where s = ?s and t = "''compliance''", OF empties(3)]
      other [where s = ?s and t = "''other''", OF empties(4)]
    by simp
  then have "cleanup_old_feedback fromisoformat float_of_int float_sub float_gt edge_store
      example_dir now 30 None = Inr (1, ?s)"
    using assms(1,2) by (simp add: cleanup_old_feedback_def)
  moreover have "file_at ?s (example_dir @ [''issue'']) ''edge.json'' = None"
    by (simp add: file_at_def)
  moreover have "file_at edge_store (example_dir @ [''issue'']) ''edge.json''
      = Some (Doc (JObj rec_edge))"
    using edge_partitions(1) by (simp add: file_at_def partition_def)
  ultimately show ?thesis by blast
qed

theorem cleanup_removes_record_at_cutoff_witness:
  "whole_seconds 2592000 = Some 2592000
   \<and> (1706659200::real) - 2592000 = 1704067200
   \<and> example_fromisoformat ''2024-01-01T00:00:00'' = Some 1704067200
   \<and> \<not> (1704067200::real) > 1704067200
   \<and> (\<exists>s'. cleanup_old_feedback example_fromisoformat whole_seconds (-) (>) edge_store
                 example_dir 1706659200 30 None = Inr (1, s')
          \<and> file_at edge_store (example_dir @ [''issue'']) ''edge.json''
              = Some (Doc (JObj rec_edge))
          \<and> file_at s' (example_dir @ [''issue'']) ''edge.json'' = None)"
proof -
  have h1: "whole_seconds 2592000 = Some 2592000" by (simp add: whole_seconds_def)
  have h2: "(1706659200::real) - 2592000 = 1704067200" by simp
  have h3: "example_fromisoformat ''2024-01-01T00:00:00'' = Some 1704067200"
    by (simp add: example_fromisoformat_def)
  have h4: "\<not> (1704067200::real) > 1704067200" by simp
  show ?thesis
    using h1 h2 h3 h4
      cleanup_removes_record_at_cutoff [of whole_seconds 2592000 "(-)" 1706659200 1704067200
        example_fromisoformat "(>)", OF h1 h2 h3 h4]
    by simp
qed


end
